theory Spec2Isabelle
  imports Main "HOL-Library.Multiset"
begin

section \<open>Text\<close>

text \<open>
  A Python \<^verbatim>\<open>str\<close> is a sequence of Unicode code points, so it is a list of natural
  numbers here. \<open>asc\<close> turns an ASCII literal into such a sequence; characters beyond
  ASCII are written as their code point.
\<close>

type_synonym str = "nat list"

definition asc :: "string \<Rightarrow> str" where
  "asc s = map of_char s"

text \<open>
  \<^verbatim>\<open>str.isspace\<close>, the characters removed by \<^verbatim>\<open>str.strip()\<close> and the class
  \<^verbatim>\<open>\s\<close> of \<^verbatim>\<open>re\<close> on a \<^verbatim>\<open>str\<close> pattern are one set of code points.
\<close>

definition isspace :: "nat \<Rightarrow> bool" where
  "isspace c \<longleftrightarrow>
     (9 \<le> c \<and> c \<le> 13) \<or> (28 \<le> c \<and> c \<le> 32) \<or> c = 133 \<or> c = 160 \<or> c = 5760 \<or>
     (8192 \<le> c \<and> c \<le> 8202) \<or> c = 8232 \<or> c = 8233 \<or> c = 8239 \<or> c = 8287 \<or> c = 12288"

definition strip_chars :: "(nat \<Rightarrow> bool) \<Rightarrow> str \<Rightarrow> str" where
  "strip_chars p s = rev (dropWhile p (rev (dropWhile p s)))"

definition strip :: "str \<Rightarrow> str" where
  "strip s = strip_chars isspace s"

text \<open>\<^verbatim>\<open>a in b\<close> on two strings: \<open>a\<close> occurs in \<open>b\<close> as a contiguous run.\<close>

definition starts_with :: "str \<Rightarrow> str \<Rightarrow> bool" where
  "starts_with a b \<longleftrightarrow> take (length a) b = a"

definition str_in :: "str \<Rightarrow> str \<Rightarrow> bool" where
  "str_in a b \<longleftrightarrow> list_ex (\<lambda>i. starts_with a (drop i b)) [0..<Suc (length b)]"

text \<open>
  The rest of what the scripts use of Unicode is table driven in CPython:
  \<^verbatim>\<open>str.lower\<close>, \<^verbatim>\<open>str.upper\<close>, the classes \<^verbatim>\<open>\d\<close> and \<^verbatim>\<open>\w\<close>, and case-insensitive
  matching under \<^verbatim>\<open>re.IGNORECASE\<close>. The tables are a parameter of the model;
  \<open>ascii_ucd\<close> is their restriction to ASCII text, on which the functions are evaluated.
\<close>

record ucd =
  ucd_lower :: "str \<Rightarrow> str"
  ucd_upper :: "str \<Rightarrow> str"
  ucd_digit :: "nat \<Rightarrow> bool"
  ucd_word :: "nat \<Rightarrow> bool"
  ucd_ci_alpha :: "nat \<Rightarrow> bool"
  ucd_ci_eq :: "nat \<Rightarrow> nat \<Rightarrow> bool"

definition ascii_lower_char :: "nat \<Rightarrow> nat" where
  "ascii_lower_char c = (if 65 \<le> c \<and> c \<le> 90 then c + 32 else c)"

definition ascii_upper_char :: "nat \<Rightarrow> nat" where
  "ascii_upper_char c = (if 97 \<le> c \<and> c \<le> 122 then c - 32 else c)"

definition ascii_alpha :: "nat \<Rightarrow> bool" where
  "ascii_alpha c \<longleftrightarrow> (65 \<le> c \<and> c \<le> 90) \<or> (97 \<le> c \<and> c \<le> 122)"

definition ascii_digit :: "nat \<Rightarrow> bool" where
  "ascii_digit c \<longleftrightarrow> 48 \<le> c \<and> c \<le> 57"

definition ascii_ucd :: ucd where
  "ascii_ucd = \<lparr>
     ucd_lower = map ascii_lower_char,
     ucd_upper = map ascii_upper_char,
     ucd_digit = ascii_digit,
     ucd_word = (\<lambda>c. ascii_alpha c \<or> ascii_digit c \<or> c = 95),
     ucd_ci_alpha = ascii_alpha,
     ucd_ci_eq = (\<lambda>p c. ascii_lower_char p = ascii_lower_char c) \<rparr>"

section \<open>Static tables\<close>

text \<open>
  A dictionary literal is the list of its items in source order, read with \<open>map_of\<close>;
  iteration follows the list. Coordinates are decimal literals with four places; they
  are only stored, compared for equality and handed on, so a coordinate is the integer
  number of ten-thousandths of a degree.
\<close>

text \<open>\<^verbatim>\<open>generate_residence_heatmap.py\<close>: state abbreviations.\<close>

definition STATE_ABBREV :: "(str \<times> str) list" where
  "STATE_ABBREV = [
    (asc ''AL'', asc ''Alabama''),
    (asc ''AK'', asc ''Alaska''),
    (asc ''AZ'', asc ''Arizona''),
    (asc ''AR'', asc ''Arkansas''),
    (asc ''CA'', asc ''California''),
    (asc ''CO'', asc ''Colorado''),
    (asc ''CT'', asc ''Connecticut''),
    (asc ''DE'', asc ''Delaware''),
    (asc ''FL'', asc ''Florida''),
    (asc ''GA'', asc ''Georgia''),
    (asc ''HI'', asc ''Hawaii''),
    (asc ''ID'', asc ''Idaho''),
    (asc ''IL'', asc ''Illinois''),
    (asc ''IN'', asc ''Indiana''),
    (asc ''IA'', asc ''Iowa''),
    (asc ''KS'', asc ''Kansas''),
    (asc ''KY'', asc ''Kentucky''),
    (asc ''LA'', asc ''Louisiana''),
    (asc ''ME'', asc ''Maine''),
    (asc ''MD'', asc ''Maryland''),
    (asc ''MA'', asc ''Massachusetts''),
    (asc ''MI'', asc ''Michigan''),
    (asc ''MN'', asc ''Minnesota''),
    (asc ''MS'', asc ''Mississippi''),
    (asc ''MO'', asc ''Missouri''),
    (asc ''MT'', asc ''Montana''),
    (asc ''NE'', asc ''Nebraska''),
    (asc ''NV'', asc ''Nevada''),
    (asc ''NH'', asc ''New Hampshire''),
    (asc ''NJ'', asc ''New Jersey''),
    (asc ''NM'', asc ''New Mexico''),
    (asc ''NY'', asc ''New York''),
    (asc ''NC'', asc ''North Carolina''),
    (asc ''ND'', asc ''North Dakota''),
    (asc ''OH'', asc ''Ohio''),
    (asc ''OK'', asc ''Oklahoma''),
    (asc ''OR'', asc ''Oregon''),
    (asc ''PA'', asc ''Pennsylvania''),
    (asc ''RI'', asc ''Rhode Island''),
    (asc ''SC'', asc ''South Carolina''),
    (asc ''SD'', asc ''South Dakota''),
    (asc ''TN'', asc ''Tennessee''),
    (asc ''TX'', asc ''Texas''),
    (asc ''UT'', asc ''Utah''),
    (asc ''VT'', asc ''Vermont''),
    (asc ''VA'', asc ''Virginia''),
    (asc ''WA'', asc ''Washington''),
    (asc ''WV'', asc ''West Virginia''),
    (asc ''WI'', asc ''Wisconsin''),
    (asc ''WY'', asc ''Wyoming''),
    (asc ''DC'', asc ''District of Columbia'')]"

text \<open>\<^verbatim>\<open>generate_residence_heatmap.py\<close>: three-digit prefixes and five-digit codes.\<close>

definition ZIP_COORDS :: "(str \<times> int \<times> int \<times> str) list" where
  "ZIP_COORDS = [
    (asc ''900'', 340522, - 1182437, asc ''Downtown LA''),
    (asc ''901'', 339425, - 1182551, asc ''Inglewood/South LA''),
    (asc ''902'', 338153, - 1183518, asc ''Torrance/South Bay''),
    (asc ''903'', 338958, - 1182201, asc ''Compton/Lynwood''),
    (asc ''904'', 339017, - 1180818, asc ''Cerritos/Norwalk''),
    (asc ''905'', 337701, - 1181937, asc ''Long Beach''),
    (asc ''906'', 337879, - 1181489, asc ''Long Beach East''),
    (asc ''907'', 337975, - 1183223, asc ''San Pedro/Harbor''),
    (asc ''908'', 337959, - 1181052, asc ''Lakewood/Hawaiian Gardens''),
    (asc ''910'', 341808, - 1183090, asc ''Glendale/Burbank''),
    (asc ''911'', 341425, - 1182551, asc ''Glendale/Eagle Rock''),
    (asc ''912'', 341478, - 1181445, asc ''Pasadena''),
    (asc ''913'', 341064, - 1180415, asc ''Arcadia/Monrovia''),
    (asc ''914'', 340689, - 1179391, asc ''San Dimas/La Verne''),
    (asc ''915'', 340966, - 1177198, asc ''Pomona/Claremont''),
    (asc ''916'', 340195, - 1181517, asc ''Alhambra/Monterey Park''),
    (asc ''917'', 340633, - 1182275, asc ''East LA/City Terrace''),
    (asc ''918'', 340901, - 1178903, asc ''West Covina/Covina''),
    (asc ''919'', 341478, - 1178648, asc ''Azusa/Glendora''),
    (asc ''920'', 327157, - 1171611, asc ''San Diego Central''),
    (asc ''921'', 328328, - 1171713, asc ''San Diego North''),
    (asc ''922'', 331959, - 1173795, asc ''Oceanside/Carlsbad''),
    (asc ''923'', 330114, - 1170917, asc ''Escondido/San Marcos''),
    (asc ''924'', 326401, - 1170842, asc ''Chula Vista/National City''),
    (asc ''925'', 327940, - 1169625, asc ''El Cajon/La Mesa''),
    (asc ''926'', 336846, - 1178265, asc ''Irvine/Lake Forest''),
    (asc ''927'', 337175, - 1178311, asc ''Santa Ana/Orange''),
    (asc ''928'', 338366, - 1179143, asc ''Anaheim/Fullerton''),
    (asc ''930'', 349530, - 1204357, asc ''Santa Maria''),
    (asc ''931'', 344208, - 1196982, asc ''Santa Barbara''),
    (asc ''932'', 353733, - 1190187, asc ''Bakersfield''),
    (asc ''933'', 353733, - 1190187, asc ''Bakersfield''),
    (asc ''934'', 367378, - 1197871, asc ''Fresno''),
    (asc ''935'', 367378, - 1197871, asc ''Fresno''),
    (asc ''936'', 367378, - 1197871, asc ''Fresno''),
    (asc ''937'', 366002, - 1218947, asc ''Monterey/Salinas''),
    (asc ''939'', 373382, - 1218863, asc ''San Jose''),
    (asc ''940'', 377749, - 1224194, asc ''San Francisco''),
    (asc ''941'', 377749, - 1224194, asc ''San Francisco''),
    (asc ''942'', 378044, - 1222712, asc ''Oakland''),
    (asc ''943'', 375485, - 1220590, asc ''Fremont/Hayward''),
    (asc ''944'', 378716, - 1222727, asc ''Berkeley''),
    (asc ''945'', 378044, - 1222712, asc ''Oakland''),
    (asc ''946'', 379577, - 1223470, asc ''Richmond/El Cerrito''),
    (asc ''947'', 379577, - 1223470, asc ''Contra Costa''),
    (asc ''948'', 379577, - 1223470, asc ''Contra Costa''),
    (asc ''949'', 379735, - 1225311, asc ''Marin County''),
    (asc ''950'', 373382, - 1218863, asc ''San Jose''),
    (asc ''951'', 339533, - 1173962, asc ''Riverside''),
    (asc ''952'', 339533, - 1173962, asc ''Riverside''),
    (asc ''953'', 340922, - 1174350, asc ''San Bernardino''),
    (asc ''954'', 345362, - 1172928, asc ''Victorville/High Desert''),
    (asc ''955'', 405865, - 1223917, asc ''Redding''),
    (asc ''956'', 385816, - 1214944, asc ''Sacramento''),
    (asc ''957'', 385816, - 1214944, asc ''Sacramento''),
    (asc ''958'', 385816, - 1214944, asc ''Sacramento''),
    (asc ''959'', 385816, - 1214944, asc ''Sacramento''),
    (asc ''960'', 408021, - 1241637, asc ''Eureka''),
    (asc ''90004'', 340764, - 1183090, asc ''Los Feliz''),
    (asc ''90005'', 340594, - 1183011, asc ''Koreatown''),
    (asc ''90006'', 340478, - 1182946, asc ''Pico-Union''),
    (asc ''90007'', 340259, - 1182838, asc ''USC/South LA''),
    (asc ''90008'', 340106, - 1183401, asc ''Baldwin Hills''),
    (asc ''90010'', 340620, - 1183152, asc ''Mid-Wilshire''),
    (asc ''90012'', 340622, - 1182406, asc ''Chinatown/Civic Center''),
    (asc ''90013'', 340407, - 1182468, asc ''Downtown LA''),
    (asc ''90014'', 340407, - 1182533, asc ''Fashion District''),
    (asc ''90015'', 340370, - 1182654, asc ''South Park''),
    (asc ''90016'', 340281, - 1183520, asc ''West Adams''),
    (asc ''90017'', 340522, - 1182602, asc ''Downtown West''),
    (asc ''90018'', 340281, - 1183178, asc ''Jefferson Park''),
    (asc ''90019'', 340478, - 1183401, asc ''Mid-City''),
    (asc ''90020'', 340667, - 1183090, asc ''Koreatown North''),
    (asc ''90024'', 340633, - 1184298, asc ''Westwood''),
    (asc ''90025'', 340411, - 1184476, asc ''West LA''),
    (asc ''90026'', 340781, - 1182606, asc ''Echo Park''),
    (asc ''90027'', 341017, - 1182937, asc ''Los Feliz/Griffith''),
    (asc ''90028'', 341017, - 1183287, asc ''Hollywood''),
    (asc ''90029'', 340900, - 1182937, asc ''Thai Town''),
    (asc ''90031'', 340781, - 1182106, asc ''Lincoln Heights''),
    (asc ''90032'', 340781, - 1181756, asc ''El Sereno''),
    (asc ''90033'', 340481, - 1182106, asc ''Boyle Heights''),
    (asc ''90034'', 340281, - 1183970, asc ''Palms/Cheviot Hills''),
    (asc ''90035'', 340533, - 1183720, asc ''Miracle Mile''),
    (asc ''90036'', 340700, - 1183520, asc ''Park La Brea''),
    (asc ''90038'', 340900, - 1183287, asc ''Hollywood''),
    (asc ''90039'', 341117, - 1182606, asc ''Silver Lake''),
    (asc ''90041'', 341367, - 1182106, asc ''Eagle Rock''),
    (asc ''90042'', 341117, - 1181906, asc ''Highland Park''),
    (asc ''90043'', 339906, - 1183401, asc ''View Park''),
    (asc ''90044'', 339531, - 1182901, asc ''Athens''),
    (asc ''90045'', 339581, - 1183970, asc ''Westchester''),
    (asc ''90046'', 341117, - 1183670, asc ''West Hollywood''),
    (asc ''90047'', 339531, - 1183178, asc ''South LA''),
    (asc ''90048'', 340750, - 1183720, asc ''Beverly Grove''),
    (asc ''90049'', 340781, - 1184726, asc ''Brentwood''),
    (asc ''90056'', 339906, - 1183720, asc ''Ladera Heights''),
    (asc ''90057'', 340594, - 1182751, asc ''Westlake''),
    (asc ''90058'', 339906, - 1182106, asc ''Vernon''),
    (asc ''90059'', 339281, - 1182456, asc ''Watts''),
    (asc ''90061'', 339206, - 1182751, asc ''South LA''),
    (asc ''90062'', 340031, - 1183090, asc ''South LA''),
    (asc ''90063'', 340481, - 1181856, asc ''East LA''),
    (asc ''90064'', 340281, - 1184226, asc ''Rancho Park''),
    (asc ''90065'', 341117, - 1182256, asc ''Cypress Park''),
    (asc ''90066'', 340031, - 1184326, asc ''Mar Vista''),
    (asc ''90067'', 340533, - 1184126, asc ''Century City''),
    (asc ''90068'', 341267, - 1183287, asc ''Hollywood Hills''),
    (asc ''90069'', 340900, - 1183820, asc ''West Hollywood''),
    (asc ''90071'', 340522, - 1182537, asc ''DTLA Financial''),
    (asc ''90077'', 341017, - 1184476, asc ''Bel Air''),
    (asc ''90094'', 339781, - 1184476, asc ''Playa Vista''),
    (asc ''90210'', 340901, - 1184065, asc ''Beverly Hills''),
    (asc ''90211'', 340656, - 1183865, asc ''Beverly Hills''),
    (asc ''90212'', 340578, - 1184015, asc ''Beverly Hills''),
    (asc ''90230'', 340028, - 1183920, asc ''Culver City''),
    (asc ''90232'', 340203, - 1183970, asc ''Culver City''),
    (asc ''90247'', 338911, - 1182901, asc ''Gardena''),
    (asc ''90248'', 338786, - 1183070, asc ''Gardena''),
    (asc ''90249'', 339036, - 1183178, asc ''Gardena''),
    (asc ''90250'', 339161, - 1183520, asc ''Hawthorne''),
    (asc ''90260'', 338911, - 1183520, asc ''Lawndale''),
    (asc ''90266'', 338836, - 1184076, asc ''Manhattan Beach''),
    (asc ''90274'', 337578, - 1183870, asc ''Palos Verdes''),
    (asc ''90275'', 337453, - 1183620, asc ''Rancho Palos Verdes''),
    (asc ''90277'', 338286, - 1183870, asc ''Redondo Beach''),
    (asc ''90278'', 338661, - 1183770, asc ''Redondo Beach''),
    (asc ''90291'', 339956, - 1184726, asc ''Venice''),
    (asc ''90292'', 339706, - 1184526, asc ''Marina del Rey''),
    (asc ''90293'', 339581, - 1184576, asc ''Playa del Rey''),
    (asc ''90301'', 339506, - 1183520, asc ''Inglewood''),
    (asc ''90302'', 339631, - 1183401, asc ''Inglewood''),
    (asc ''90303'', 339381, - 1183287, asc ''Inglewood''),
    (asc ''90304'', 339256, - 1183620, asc ''Lennox''),
    (asc ''90401'', 340195, - 1184916, asc ''Santa Monica''),
    (asc ''90402'', 340370, - 1185016, asc ''Santa Monica''),
    (asc ''90403'', 340295, - 1184866, asc ''Santa Monica''),
    (asc ''90404'', 340295, - 1184716, asc ''Santa Monica''),
    (asc ''90405'', 340045, - 1184766, asc ''Santa Monica''),
    (asc ''90501'', 338286, - 1183070, asc ''Torrance''),
    (asc ''90502'', 338411, - 1182951, asc ''Torrance''),
    (asc ''90503'', 338411, - 1183401, asc ''Torrance''),
    (asc ''90504'', 338661, - 1183287, asc ''Torrance''),
    (asc ''90505'', 338161, - 1183520, asc ''Torrance''),
    (asc ''90601'', 339756, - 1180567, asc ''Whittier''),
    (asc ''90602'', 339631, - 1180317, asc ''Whittier''),
    (asc ''90603'', 339381, - 1179967, asc ''Whittier''),
    (asc ''90604'', 339256, - 1180067, asc ''Whittier''),
    (asc ''90605'', 339381, - 1180317, asc ''Whittier''),
    (asc ''90606'', 339756, - 1180967, asc ''Whittier''),
    (asc ''90620'', 338536, - 1180117, asc ''Buena Park''),
    (asc ''90621'', 338786, - 1179967, asc ''Buena Park''),
    (asc ''90630'', 338036, - 1180617, asc ''Cypress''),
    (asc ''90631'', 339131, - 1179517, asc ''La Habra''),
    (asc ''90638'', 338911, - 1180517, asc ''La Mirada''),
    (asc ''90640'', 340031, - 1181006, asc ''Montebello''),
    (asc ''90650'', 339131, - 1180817, asc ''Norwalk''),
    (asc ''90660'', 339881, - 1180667, asc ''Pico Rivera''),
    (asc ''90670'', 338661, - 1180817, asc ''Santa Fe Springs''),
    (asc ''90680'', 337786, - 1179817, asc ''Stanton''),
    (asc ''90701'', 338661, - 1180567, asc ''Artesia''),
    (asc ''90703'', 338661, - 1180317, asc ''Cerritos''),
    (asc ''90706'', 338911, - 1181317, asc ''Bellflower''),
    (asc ''90710'', 337911, - 1182651, asc ''Harbor City''),
    (asc ''90712'', 338536, - 1181417, asc ''Lakewood''),
    (asc ''90713'', 338411, - 1181167, asc ''Lakewood''),
    (asc ''90715'', 338411, - 1180717, asc ''Lakewood''),
    (asc ''90716'', 338286, - 1180567, asc ''Hawaiian Gardens''),
    (asc ''90717'', 338036, - 1182901, asc ''Lomita''),
    (asc ''90720'', 337911, - 1180767, asc ''Los Alamitos''),
    (asc ''90731'', 337411, - 1182801, asc ''San Pedro''),
    (asc ''90732'', 337536, - 1183120, asc ''San Pedro''),
    (asc ''90740'', 337536, - 1180767, asc ''Seal Beach''),
    (asc ''90744'', 337911, - 1182651, asc ''Wilmington''),
    (asc ''90745'', 338161, - 1182651, asc ''Carson''),
    (asc ''90746'', 338536, - 1182551, asc ''Carson''),
    (asc ''90802'', 337661, - 1181867, asc ''Long Beach Downtown''),
    (asc ''90803'', 337536, - 1181367, asc ''Long Beach Belmont''),
    (asc ''90804'', 337786, - 1181517, asc ''Long Beach''),
    (asc ''90805'', 338661, - 1181867, asc ''Long Beach North''),
    (asc ''90806'', 337911, - 1181867, asc ''Long Beach''),
    (asc ''90807'', 338286, - 1181867, asc ''Long Beach''),
    (asc ''90808'', 338286, - 1181117, asc ''Long Beach East''),
    (asc ''90810'', 338161, - 1182201, asc ''Long Beach West''),
    (asc ''90813'', 337786, - 1181817, asc ''Long Beach''),
    (asc ''90814'', 337661, - 1181517, asc ''Long Beach Belmont''),
    (asc ''90815'', 337911, - 1181117, asc ''Long Beach''),
    (asc ''91001'', 342017, - 1181306, asc ''Altadena''),
    (asc ''91006'', 341367, - 1180256, asc ''Arcadia''),
    (asc ''91007'', 341242, - 1180456, asc ''Arcadia''),
    (asc ''91010'', 341367, - 1179556, asc ''Duarte''),
    (asc ''91011'', 342142, - 1182006, asc ''La Ca'' @ [241] @ asc ''ada''),
    (asc ''91016'', 341617, - 1179956, asc ''Monrovia''),
    (asc ''91020'', 342267, - 1182406, asc ''Montrose''),
    (asc ''91024'', 341742, - 1180556, asc ''Sierra Madre''),
    (asc ''91030'', 341117, - 1181556, asc ''South Pasadena''),
    (asc ''91040'', 342517, - 1182906, asc ''Sunland''),
    (asc ''91042'', 342642, - 1182256, asc ''Tujunga''),
    (asc ''91101'', 341478, - 1181445, asc ''Pasadena''),
    (asc ''91103'', 341728, - 1181545, asc ''Pasadena''),
    (asc ''91104'', 341603, - 1181245, asc ''Pasadena''),
    (asc ''91105'', 341353, - 1181595, asc ''Pasadena''),
    (asc ''91106'', 341353, - 1181245, asc ''Pasadena''),
    (asc ''91107'', 341478, - 1180795, asc ''Pasadena''),
    (asc ''91108'', 341228, - 1180995, asc ''San Marino''),
    (asc ''91201'', 341617, - 1182906, asc ''Glendale''),
    (asc ''91202'', 341617, - 1182656, asc ''Glendale''),
    (asc ''91203'', 341492, - 1182556, asc ''Glendale''),
    (asc ''91204'', 341367, - 1182556, asc ''Glendale''),
    (asc ''91205'', 341367, - 1182306, asc ''Glendale''),
    (asc ''91206'', 341617, - 1182206, asc ''Glendale''),
    (asc ''91207'', 341867, - 1182606, asc ''Glendale''),
    (asc ''91208'', 341992, - 1182306, asc ''Glendale''),
    (asc ''91214'', 342267, - 1182556, asc ''La Crescenta''),
    (asc ''91301'', 341367, - 1187556, asc ''Agoura Hills''),
    (asc ''91302'', 341367, - 1186756, asc ''Calabasas''),
    (asc ''91303'', 342017, - 1186006, asc ''Canoga Park''),
    (asc ''91304'', 342267, - 1186006, asc ''Canoga Park''),
    (asc ''91306'', 342017, - 1185556, asc ''Winnetka''),
    (asc ''91307'', 341867, - 1186506, asc ''West Hills''),
    (asc ''91311'', 342642, - 1185706, asc ''Chatsworth''),
    (asc ''91316'', 341617, - 1185156, asc ''Encino''),
    (asc ''91321'', 343892, - 1185506, asc ''Newhall''),
    (asc ''91324'', 342392, - 1185406, asc ''Northridge''),
    (asc ''91325'', 342517, - 1185056, asc ''Northridge''),
    (asc ''91326'', 342767, - 1185556, asc ''Northridge''),
    (asc ''91330'', 342392, - 1185256, asc ''Northridge''),
    (asc ''91331'', 342767, - 1184256, asc ''Pacoima''),
    (asc ''91335'', 342017, - 1184706, asc ''Reseda''),
    (asc ''91340'', 342892, - 1184406, asc ''San Fernando''),
    (asc ''91342'', 343142, - 1184256, asc ''Sylmar''),
    (asc ''91343'', 342267, - 1184556, asc ''North Hills''),
    (asc ''91344'', 342892, - 1185256, asc ''Granada Hills''),
    (asc ''91345'', 342642, - 1184706, asc ''Mission Hills''),
    (asc ''91350'', 344267, - 1185356, asc ''Santa Clarita''),
    (asc ''91351'', 344017, - 1184756, asc ''Canyon Country''),
    (asc ''91352'', 342267, - 1183256, asc ''Sun Valley''),
    (asc ''91354'', 344517, - 1185606, asc ''Valencia''),
    (asc ''91355'', 344142, - 1185606, asc ''Valencia''),
    (asc ''91356'', 341742, - 1185456, asc ''Tarzana''),
    (asc ''91360'', 341867, - 1188656, asc ''Thousand Oaks''),
    (asc ''91361'', 341367, - 1188156, asc ''Westlake Village''),
    (asc ''91362'', 341617, - 1188406, asc ''Thousand Oaks''),
    (asc ''91364'', 341617, - 1185806, asc ''Woodland Hills''),
    (asc ''91367'', 341742, - 1186006, asc ''Woodland Hills''),
    (asc ''91377'', 341492, - 1187756, asc ''Oak Park''),
    (asc ''91381'', 344017, - 1185756, asc ''Stevenson Ranch''),
    (asc ''91384'', 344767, - 1186006, asc ''Castaic''),
    (asc ''91401'', 341867, - 1184256, asc ''Van Nuys''),
    (asc ''91402'', 342267, - 1184106, asc ''Panorama City''),
    (asc ''91403'', 341492, - 1184506, asc ''Sherman Oaks''),
    (asc ''91405'', 342017, - 1184256, asc ''Van Nuys''),
    (asc ''91406'', 342017, - 1184906, asc ''Van Nuys''),
    (asc ''91411'', 341867, - 1184506, asc ''Van Nuys''),
    (asc ''91423'', 341492, - 1184256, asc ''Sherman Oaks''),
    (asc ''91436'', 341617, - 1184706, asc ''Encino''),
    (asc ''91501'', 341867, - 1183256, asc ''Burbank''),
    (asc ''91502'', 341742, - 1183156, asc ''Burbank''),
    (asc ''91504'', 342142, - 1183256, asc ''Burbank''),
    (asc ''91505'', 341867, - 1183556, asc ''Burbank''),
    (asc ''91506'', 341742, - 1183406, asc ''Burbank''),
    (asc ''91601'', 341742, - 1183806, asc ''North Hollywood''),
    (asc ''91602'', 341617, - 1183606, asc ''North Hollywood''),
    (asc ''91604'', 341492, - 1183906, asc ''Studio City''),
    (asc ''91605'', 342017, - 1183906, asc ''North Hollywood''),
    (asc ''91606'', 341867, - 1183906, asc ''North Hollywood''),
    (asc ''91607'', 341617, - 1184006, asc ''Valley Village''),
    (asc ''91608'', 341367, - 1183656, asc ''Universal City''),
    (asc ''91702'', 341117, - 1178856, asc ''Azusa''),
    (asc ''91706'', 340831, - 1179517, asc ''Baldwin Park''),
    (asc ''91709'', 340206, - 1177617, asc ''Chino Hills''),
    (asc ''91710'', 340031, - 1176867, asc ''Chino''),
    (asc ''91711'', 340956, - 1177117, asc ''Claremont''),
    (asc ''91722'', 340956, - 1179317, asc ''Covina''),
    (asc ''91723'', 340831, - 1178867, asc ''Covina''),
    (asc ''91724'', 341081, - 1178567, asc ''Covina''),
    (asc ''91730'', 341206, - 1175717, asc ''Rancho Cucamonga''),
    (asc ''91731'', 340831, - 1180506, asc ''El Monte''),
    (asc ''91732'', 340581, - 1180256, asc ''El Monte''),
    (asc ''91733'', 340456, - 1180717, asc ''South El Monte''),
    (asc ''91740'', 341206, - 1178067, asc ''Glendora''),
    (asc ''91741'', 341456, - 1178267, asc ''Glendora''),
    (asc ''91744'', 340331, - 1179417, asc ''La Puente''),
    (asc ''91745'', 340081, - 1179767, asc ''Hacienda Heights''),
    (asc ''91746'', 340456, - 1179717, asc ''La Puente''),
    (asc ''91748'', 339906, - 1179117, asc ''Rowland Heights''),
    (asc ''91750'', 341081, - 1177717, asc ''La Verne''),
    (asc ''91754'', 340456, - 1181256, asc ''Monterey Park''),
    (asc ''91755'', 340581, - 1181456, asc ''Monterey Park''),
    (asc ''91761'', 340456, - 1175917, asc ''Ontario''),
    (asc ''91762'', 340706, - 1176217, asc ''Ontario''),
    (asc ''91763'', 340706, - 1176867, asc ''Montclair''),
    (asc ''91764'', 340706, - 1175617, asc ''Ontario''),
    (asc ''91765'', 340206, - 1178267, asc ''Diamond Bar''),
    (asc ''91766'', 340581, - 1177517, asc ''Pomona''),
    (asc ''91767'', 340831, - 1177317, asc ''Pomona''),
    (asc ''91768'', 340581, - 1176867, asc ''Pomona''),
    (asc ''91770'', 340706, - 1180756, asc ''Rosemead''),
    (asc ''91773'', 341206, - 1178467, asc ''San Dimas''),
    (asc ''91775'', 341081, - 1181056, asc ''San Gabriel''),
    (asc ''91776'', 340956, - 1180806, asc ''San Gabriel''),
    (asc ''91780'', 341206, - 1180256, asc ''Temple City''),
    (asc ''91784'', 341456, - 1176917, asc ''Upland''),
    (asc ''91786'', 341206, - 1176317, asc ''Upland''),
    (asc ''91789'', 340206, - 1178667, asc ''Walnut''),
    (asc ''91790'', 340456, - 1179117, asc ''West Covina''),
    (asc ''91791'', 340706, - 1179067, asc ''West Covina''),
    (asc ''91792'', 340206, - 1179067, asc ''West Covina''),
    (asc ''91801'', 340956, - 1181256, asc ''Alhambra''),
    (asc ''91803'', 340706, - 1181506, asc ''Alhambra''),
    (asc ''850'', 334484, - 1120740, asc ''Phoenix''),
    (asc ''851'', 334484, - 1120740, asc ''Phoenix''),
    (asc ''852'', 334152, - 1118315, asc ''Mesa/Tempe''),
    (asc ''853'', 333062, - 1118413, asc ''Chandler/Gilbert''),
    (asc ''856'', 322226, - 1109747, asc ''Tucson''),
    (asc ''857'', 322226, - 1109747, asc ''Tucson''),
    (asc ''859'', 348697, - 1117610, asc ''Flagstaff/Sedona''),
    (asc ''860'', 334942, - 1119261, asc ''Scottsdale''),
    (asc ''863'', 336189, - 1123679, asc ''Glendale/Peoria''),
    (asc ''92101'', 327197, - 1171628, asc ''Downtown SD''),
    (asc ''92102'', 327097, - 1171228, asc ''Golden Hill''),
    (asc ''92103'', 327497, - 1171628, asc ''Hillcrest''),
    (asc ''92104'', 327497, - 1171228, asc ''North Park''),
    (asc ''92105'', 327397, - 1170828, asc ''City Heights''),
    (asc ''92106'', 327197, - 1172328, asc ''Point Loma''),
    (asc ''92107'', 327397, - 1172528, asc ''Ocean Beach''),
    (asc ''92108'', 327697, - 1171328, asc ''Mission Valley''),
    (asc ''92109'', 327897, - 1172528, asc ''Pacific Beach''),
    (asc ''92110'', 327597, - 1172028, asc ''Morena/Bay Park''),
    (asc ''92111'', 328097, - 1171628, asc ''Clairemont''),
    (asc ''92113'', 326897, - 1171228, asc ''Logan Heights''),
    (asc ''92114'', 326997, - 1170528, asc ''Encanto''),
    (asc ''92115'', 327597, - 1170628, asc ''College Area''),
    (asc ''92116'', 327597, - 1171228, asc ''Normal Heights''),
    (asc ''92117'', 328297, - 1172028, asc ''Clairemont Mesa''),
    (asc ''92118'', 326797, - 1171828, asc ''Coronado''),
    (asc ''92119'', 327997, - 1170228, asc ''San Carlos''),
    (asc ''92120'', 327897, - 1170628, asc ''Grantville''),
    (asc ''92121'', 329097, - 1172028, asc ''Sorrento Valley''),
    (asc ''92122'', 328597, - 1172128, asc ''University City''),
    (asc ''92123'', 328097, - 1171228, asc ''Kearny Mesa''),
    (asc ''92124'', 328297, - 1170928, asc ''Tierrasanta''),
    (asc ''92126'', 329097, - 1171428, asc ''Mira Mesa''),
    (asc ''92127'', 330197, - 1170828, asc ''Rancho Bernardo''),
    (asc ''92128'', 330197, - 1170528, asc ''Rancho Bernardo''),
    (asc ''92129'', 329697, - 1171228, asc ''Rancho Pe'' @ [241] @ asc ''asquitos''),
    (asc ''92130'', 329597, - 1172228, asc ''Carmel Valley''),
    (asc ''92131'', 329297, - 1170828, asc ''Scripps Ranch''),
    (asc ''92134'', 327297, - 1171428, asc ''Naval Medical''),
    (asc ''92136'', 326797, - 1171228, asc ''Naval Station''),
    (asc ''92139'', 326697, - 1170528, asc ''Paradise Hills''),
    (asc ''92154'', 325797, - 1170728, asc ''Otay Mesa''),
    (asc ''92602'', 337397, - 1177928, asc ''Irvine''),
    (asc ''92603'', 336297, - 1177828, asc ''Irvine''),
    (asc ''92604'', 336897, - 1178228, asc ''Irvine''),
    (asc ''92606'', 336997, - 1178428, asc ''Irvine''),
    (asc ''92612'', 336597, - 1178328, asc ''Irvine''),
    (asc ''92614'', 336797, - 1178628, asc ''Irvine''),
    (asc ''92617'', 336397, - 1178428, asc ''Irvine''),
    (asc ''92618'', 336497, - 1177428, asc ''Irvine''),
    (asc ''92620'', 337097, - 1177628, asc ''Irvine''),
    (asc ''92626'', 336897, - 1179028, asc ''Costa Mesa''),
    (asc ''92627'', 336497, - 1179228, asc ''Costa Mesa''),
    (asc ''92629'', 334597, - 1176628, asc ''Dana Point''),
    (asc ''92630'', 336397, - 1176728, asc ''Lake Forest''),
    (asc ''92637'', 336097, - 1177028, asc ''Laguna Woods''),
    (asc ''92646'', 336597, - 1179728, asc ''Huntington Beach''),
    (asc ''92647'', 337197, - 1179928, asc ''Huntington Beach''),
    (asc ''92648'', 336897, - 1179728, asc ''Huntington Beach''),
    (asc ''92649'', 337297, - 1180428, asc ''Huntington Beach''),
    (asc ''92651'', 335497, - 1177828, asc ''Laguna Beach''),
    (asc ''92653'', 335997, - 1176928, asc ''Laguna Hills''),
    (asc ''92655'', 336997, - 1179428, asc ''Midway City''),
    (asc ''92656'', 335897, - 1177128, asc ''Aliso Viejo''),
    (asc ''92657'', 335997, - 1178528, asc ''Newport Coast''),
    (asc ''92660'', 336297, - 1178928, asc ''Newport Beach''),
    (asc ''92661'', 336097, - 1178928, asc ''Newport Beach''),
    (asc ''92662'', 336097, - 1179128, asc ''Newport Beach''),
    (asc ''92663'', 336197, - 1179328, asc ''Newport Beach''),
    (asc ''92672'', 334297, - 1176228, asc ''San Clemente''),
    (asc ''92673'', 334497, - 1176128, asc ''San Clemente''),
    (asc ''92675'', 335497, - 1176628, asc ''San Juan Capistrano''),
    (asc ''92677'', 335197, - 1177128, asc ''Laguna Niguel''),
    (asc ''92679'', 335997, - 1176328, asc ''Coto de Caza''),
    (asc ''92683'', 337497, - 1179928, asc ''Westminster''),
    (asc ''92688'', 336097, - 1176328, asc ''Rancho Santa Margarita''),
    (asc ''92691'', 335897, - 1176528, asc ''Mission Viejo''),
    (asc ''92692'', 336197, - 1176428, asc ''Mission Viejo''),
    (asc ''92694'', 335597, - 1176028, asc ''Ladera Ranch''),
    (asc ''92701'', 337497, - 1178628, asc ''Santa Ana''),
    (asc ''92702'', 337097, - 1178628, asc ''Santa Ana''),
    (asc ''92703'', 337497, - 1179028, asc ''Santa Ana''),
    (asc ''92704'', 337097, - 1179028, asc ''Santa Ana''),
    (asc ''92705'', 337497, - 1178128, asc ''Santa Ana''),
    (asc ''92706'', 337697, - 1178828, asc ''Santa Ana''),
    (asc ''92707'', 337097, - 1178428, asc ''Santa Ana''),
    (asc ''92708'', 337097, - 1179528, asc ''Fountain Valley''),
    (asc ''92780'', 337397, - 1178228, asc ''Tustin''),
    (asc ''92782'', 337597, - 1177728, asc ''Tustin''),
    (asc ''92801'', 338397, - 1179328, asc ''Anaheim''),
    (asc ''92802'', 338097, - 1179228, asc ''Anaheim''),
    (asc ''92804'', 338197, - 1179728, asc ''Anaheim''),
    (asc ''92805'', 338397, - 1179028, asc ''Anaheim''),
    (asc ''92806'', 338397, - 1178628, asc ''Anaheim''),
    (asc ''92807'', 338497, - 1177928, asc ''Anaheim''),
    (asc ''92808'', 338697, - 1177428, asc ''Anaheim Hills''),
    (asc ''92821'', 339297, - 1178928, asc ''Brea''),
    (asc ''92823'', 339197, - 1178228, asc ''Brea''),
    (asc ''92831'', 338797, - 1179228, asc ''Fullerton''),
    (asc ''92832'', 338697, - 1179428, asc ''Fullerton''),
    (asc ''92833'', 338697, - 1179728, asc ''Fullerton''),
    (asc ''92835'', 339097, - 1179228, asc ''Fullerton''),
    (asc ''92840'', 337497, - 1179628, asc ''Garden Grove''),
    (asc ''92841'', 337897, - 1179928, asc ''Garden Grove''),
    (asc ''92843'', 337597, - 1179228, asc ''Garden Grove''),
    (asc ''92844'', 337697, - 1179728, asc ''Garden Grove''),
    (asc ''92845'', 337897, - 1179528, asc ''Garden Grove''),
    (asc ''92861'', 337897, - 1178128, asc ''Villa Park''),
    (asc ''92865'', 338297, - 1178428, asc ''Orange''),
    (asc ''92866'', 337897, - 1178528, asc ''Orange''),
    (asc ''92867'', 338197, - 1178128, asc ''Orange''),
    (asc ''92868'', 337897, - 1178828, asc ''Orange''),
    (asc ''92869'', 338097, - 1177728, asc ''Orange''),
    (asc ''92870'', 338997, - 1178628, asc ''Placentia''),
    (asc ''92886'', 339197, - 1177928, asc ''Yorba Linda''),
    (asc ''92887'', 338897, - 1177428, asc ''Yorba Linda'')]"

text \<open>\<^verbatim>\<open>generate_jet_placement_heatmap.py\<close>: prefecture capitals and alternate spellings.\<close>

definition PREFECTURE_COORDS :: "(str \<times> int \<times> int \<times> str) list" where
  "PREFECTURE_COORDS = [
    (asc ''Hokkaido'', 430642, 1413469, asc ''Hokkaido''),
    (asc ''Aomori'', 408244, 1407400, asc ''Aomori''),
    (asc ''Iwate'', 397036, 1411527, asc ''Iwate''),
    (asc ''Miyagi'', 382688, 1408721, asc ''Miyagi''),
    (asc ''Akita'', 397186, 1401024, asc ''Akita''),
    (asc ''Yamagata'', 382404, 1403633, asc ''Yamagata''),
    (asc ''Fukushima'', 377500, 1404678, asc ''Fukushima''),
    (asc ''Ibaraki'', 363418, 1404468, asc ''Ibaraki''),
    (asc ''Tochigi'', 365658, 1398836, asc ''Tochigi''),
    (asc ''Gunma'', 363912, 1390608, asc ''Gunma''),
    (asc ''Saitama'', 358617, 1396455, asc ''Saitama''),
    (asc ''Chiba'', 356050, 1401233, asc ''Chiba''),
    (asc ''Tokyo'', 356762, 1396503, asc ''Tokyo''),
    (asc ''Kanagawa'', 354478, 1396425, asc ''Kanagawa''),
    (asc ''Niigata'', 379026, 1390236, asc ''Niigata''),
    (asc ''Toyama'', 366953, 1372113, asc ''Toyama''),
    (asc ''Ishikawa'', 365947, 1366256, asc ''Ishikawa''),
    (asc ''Fukui'', 360652, 1362216, asc ''Fukui''),
    (asc ''Yamanashi'', 356642, 1385684, asc ''Yamanashi''),
    (asc ''Nagano'', 366513, 1381810, asc ''Nagano''),
    (asc ''Gifu'', 353912, 1367223, asc ''Gifu''),
    (asc ''Shizuoka'', 349769, 1383831, asc ''Shizuoka''),
    (asc ''Aichi'', 351802, 1369066, asc ''Aichi''),
    (asc ''Mie'', 347303, 1365086, asc ''Mie''),
    (asc ''Shiga'', 350045, 1358686, asc ''Shiga''),
    (asc ''Kyoto'', 350116, 1357681, asc ''Kyoto''),
    (asc ''Osaka'', 346937, 1355023, asc ''Osaka''),
    (asc ''Hyogo'', 346913, 1351830, asc ''Hyogo''),
    (asc ''Nara'', 346851, 1358329, asc ''Nara''),
    (asc ''Wakayama'', 342260, 1351675, asc ''Wakayama''),
    (asc ''Tottori'', 355039, 1342381, asc ''Tottori''),
    (asc ''Shimane'', 354723, 1330505, asc ''Shimane''),
    (asc ''Okayama'', 346618, 1339344, asc ''Okayama''),
    (asc ''Hiroshima'', 343853, 1324553, asc ''Hiroshima''),
    (asc ''Yamaguchi'', 341859, 1314714, asc ''Yamaguchi''),
    (asc ''Tokushima'', 340658, 1345593, asc ''Tokushima''),
    (asc ''Kagawa'', 343401, 1340434, asc ''Kagawa''),
    (asc ''Ehime'', 338416, 1327657, asc ''Ehime''),
    (asc ''Kochi'', 335597, 1335311, asc ''Kochi''),
    (asc ''Fukuoka'', 335904, 1304017, asc ''Fukuoka''),
    (asc ''Saga'', 332494, 1302988, asc ''Saga''),
    (asc ''Nagasaki'', 327448, 1298737, asc ''Nagasaki''),
    (asc ''Kumamoto'', 327898, 1307417, asc ''Kumamoto''),
    (asc ''Oita'', 332382, 1316126, asc ''Oita''),
    (asc ''Miyazaki'', 319077, 1314202, asc ''Miyazaki''),
    (asc ''Kagoshima'', 315602, 1305581, asc ''Kagoshima''),
    (asc ''Okinawa'', 262124, 1276809, asc ''Okinawa'')]"

definition PREFECTURE_ALIASES :: "(str \<times> str) list" where
  "PREFECTURE_ALIASES = [
    (asc ''Tokyo Metropolitan Government'' @ [26481, 20140, 37117], asc ''Tokyo''),
    (asc ''Hyogo Pref.'' @ [20853, 24235, 30476], asc ''Hyogo''),
    (asc ''Oita Pref.'' @ [22823, 20998, 30476], asc ''Oita''),
    (asc ''Yamanashi Pref.'' @ [23665, 26792, 30476], asc ''Yamanashi''),
    (asc ''Osaka Pref.'' @ [22823, 38442, 24220], asc ''Osaka''),
    (asc ''Fukuoka Pref.'' @ [31119, 23713, 30476], asc ''Fukuoka''),
    (asc ''Nagano Pref.'' @ [38263, 37326, 30476], asc ''Nagano''),
    (asc ''Aichi Pref.'' @ [24859, 30693, 30476], asc ''Aichi''),
    (asc ''Kyoto Pref.'' @ [20140, 37117, 24220], asc ''Kyoto''),
    (asc ''Saitama Pref.'' @ [22524, 29577, 30476], asc ''Saitama''),
    (asc ''Chiba Pref.'' @ [21315, 33865, 30476], asc ''Chiba''),
    (asc ''Kanagawa Pref.'' @ [31070, 22856, 24029, 30476], asc ''Kanagawa'')]"

section \<open>Address parser (\<^verbatim>\<open>parse_address\<close>)\<close>

text \<open>
  \<^verbatim>\<open>\b\<close> at position \<open>i\<close> of \<open>s\<close>: exactly one of the characters before and after
  the position is a word character (a missing neighbour counts as none).
\<close>

definition word_boundary :: "ucd \<Rightarrow> str \<Rightarrow> nat \<Rightarrow> bool" where
  "word_boundary U s i \<longleftrightarrow>
     (0 < i \<and> i \<le> length s \<and> ucd_word U (s ! (i - 1))) \<noteq> (i < length s \<and> ucd_word U (s ! i))"

text \<open>\<^verbatim>\<open>\d{5}\<close> matches at the start of \<open>s\<close>.\<close>

definition five_digits :: "ucd \<Rightarrow> str \<Rightarrow> bool" where
  "five_digits U s \<longleftrightarrow> 5 \<le> length s \<and> list_all (ucd_digit U) (take 5 s)"

text \<open>
  \<^verbatim>\<open>re.search(r'\b(\d{5})\b', address)\<close>: the leftmost position where the pattern
  matches; group 1 is the five characters from there.
\<close>

definition zip_at :: "ucd \<Rightarrow> str \<Rightarrow> nat \<Rightarrow> bool" where
  "zip_at U s i \<longleftrightarrow>
     word_boundary U s i \<and> five_digits U (drop i s) \<and> word_boundary U s (i + 5)"

definition find_zip :: "ucd \<Rightarrow> str \<Rightarrow> nat option" where
  "find_zip U s = find (zip_at U s) [0..<Suc (length s)]"

text \<open>
  \<^verbatim>\<open>\s+\d{5}\<close> matches at the start of \<open>s\<close>: \<^verbatim>\<open>\s+\<close> takes one or more of the
  leading whitespace characters (the engine tries every such number) and five digits
  follow.
\<close>

definition ws_then_digits :: "ucd \<Rightarrow> str \<Rightarrow> bool" where
  "ws_then_digits U s \<longleftrightarrow>
     list_ex (\<lambda>n. five_digits U (drop n s)) [1..<Suc (length (takeWhile isspace s))]"

text \<open>
  \<^verbatim>\<open>re.search(r'\b([A-Z]{2})\s+\d{5}', address_upper)\<close>: the leftmost position where
  the pattern matches; group 1 is the two letters there. Without
  \<^verbatim>\<open>re.IGNORECASE\<close> the range \<^verbatim>\<open>[A-Z]\<close> is the 26 code points 65 to 90.
\<close>

definition upper_AZ :: "nat \<Rightarrow> bool" where
  "upper_AZ c \<longleftrightarrow> 65 \<le> c \<and> c \<le> 90"

definition state_at :: "ucd \<Rightarrow> str \<Rightarrow> nat \<Rightarrow> bool" where
  "state_at U s i \<longleftrightarrow>
     word_boundary U s i \<and> i + 2 \<le> length s \<and> list_all upper_AZ (take 2 (drop i s)) \<and>
     ws_then_digits U (drop (i + 2) s)"

definition find_state :: "ucd \<Rightarrow> str \<Rightarrow> nat option" where
  "find_state U s = find (state_at U s) [0..<Suc (length s)]"

text \<open>
  \<^verbatim>\<open>re.search(r'([A-Za-z\s\.]+?)\s+' + state + r'\s+\d{5}', address, re.IGNORECASE)\<close>.
  \<open>city_rest\<close> is the part after the group, matched at the start of \<open>s\<close>; the group is
  lazy, so at a start position \<open>i\<close> it is the shortest run of class characters after which
  the rest matches, and the search takes the leftmost \<open>i\<close> that has one.
\<close>

definition city_class :: "ucd \<Rightarrow> nat \<Rightarrow> bool" where
  "city_class U c \<longleftrightarrow> ucd_ci_alpha U c \<or> isspace c \<or> c = 46"

definition ci_starts_with :: "ucd \<Rightarrow> str \<Rightarrow> str \<Rightarrow> bool" where
  "ci_starts_with U p s \<longleftrightarrow> length p \<le> length s \<and> list_all2 (ucd_ci_eq U) p (take (length p) s)"

definition city_rest :: "ucd \<Rightarrow> str \<Rightarrow> str \<Rightarrow> bool" where
  "city_rest U state s \<longleftrightarrow>
     list_ex (\<lambda>m. ci_starts_with U state (drop m s) \<and>
                  ws_then_digits U (drop (m + length state) s))
       [1..<Suc (length (takeWhile isspace s))]"

definition city_at :: "ucd \<Rightarrow> str \<Rightarrow> str \<Rightarrow> nat \<Rightarrow> nat option" where
  "city_at U state s i =
     find (\<lambda>n. list_all (city_class U) (take n (drop i s)) \<and> city_rest U state (drop (i + n) s))
       [1..<Suc (length s - i)]"

definition find_city :: "ucd \<Rightarrow> str \<Rightarrow> str \<Rightarrow> str option" where
  "find_city U state s =
     (case find (\<lambda>i. city_at U state s i \<noteq> None) [0..<length s] of
        None \<Rightarrow> None
      | Some i \<Rightarrow> map_option (\<lambda>n. take n (drop i s)) (city_at U state s i))"

text \<open>
  \<^verbatim>\<open>parse_address\<close> returns \<^verbatim>\<open>(city, state, zip_code)\<close>. The argument is
  \<^verbatim>\<open>row.get('Address', '')\<close>, which is \<^verbatim>\<open>None\<close> for a row shorter than the header.
\<close>

definition parse_address :: "ucd \<Rightarrow> str option \<Rightarrow> str option \<times> str option \<times> str option" where
  "parse_address U address =
     (case address of
        None \<Rightarrow> (None, None, None)
      | Some a \<Rightarrow>
          if a = [] \<or> strip a = [] then (None, None, None)
          else
            let address_upper = ucd_upper U a;
                zip_code = map_option (\<lambda>i. take 5 (drop i a)) (find_zip U a);
                state = (case find_state U address_upper of
                           None \<Rightarrow> None
                         | Some i \<Rightarrow>
                             let potential_state = take 2 (drop i address_upper)
                             in if map_of STATE_ABBREV potential_state \<noteq> None
                                then Some potential_state else None);
                city = (case state of
                          None \<Rightarrow> None
                        | Some st \<Rightarrow>
                            map_option (\<lambda>g. strip_chars (\<lambda>c. c = 46) (strip g)) (find_city U st a))
            in (city, state, zip_code))"

section \<open>Postal lookup (\<^verbatim>\<open>get_coords\<close>)\<close>

text \<open>
  \<^verbatim>\<open>if zip_code:\<close> is false for \<^verbatim>\<open>None\<close> and for the empty string. The argument
  \<open>state\<close> is not used by the body.
\<close>

definition get_coords :: "str option \<Rightarrow> str option \<Rightarrow> (int \<times> int \<times> str) option" where
  "get_coords zip_code state =
     (case zip_code of
        None \<Rightarrow> None
      | Some z \<Rightarrow>
          if z = [] then None
          else (case map_of ZIP_COORDS z of
                  Some e \<Rightarrow> Some e
                | None \<Rightarrow>
                    let prefix = take 3 z
                    in (case map_of ZIP_COORDS prefix of Some e \<Rightarrow> Some e | None \<Rightarrow> None)))"

section \<open>Prefecture normaliser (\<^verbatim>\<open>normalize_prefecture\<close>)\<close>

definition normalize_prefecture :: "ucd \<Rightarrow> str option \<Rightarrow> str option" where
  "normalize_prefecture U pref =
     (case pref of
        None \<Rightarrow> None
      | Some p \<Rightarrow>
          if p = [] \<or> strip p = [] \<or> p = asc ''N/A'' then None
          else
            let p' = strip_chars (\<lambda>c. c = 34) (strip p)
            in (case map_of PREFECTURE_ALIASES p' of
                  Some canonical \<Rightarrow> Some canonical
                | None \<Rightarrow>
                    find (\<lambda>known. str_in (ucd_lower U known) (ucd_lower U p') \<or>
                                   str_in (ucd_lower U p') (ucd_lower U known))
                      (map fst PREFECTURE_COORDS)))"

section \<open>Aggregation (the loops of \<^verbatim>\<open>main\<close>)\<close>

text \<open>
  A \<^verbatim>\<open>dict\<close> that the loop fills keeps its keys in insertion order. \<open>dict_set\<close> is
  \<^verbatim>\<open>d[k] = v\<close>: an existing key keeps its place, a new key goes to the end.
  A \<^verbatim>\<open>Counter\<close> reads a missing key as 0.
\<close>

fun dict_set :: "('k \<times> 'v) list \<Rightarrow> 'k \<Rightarrow> 'v \<Rightarrow> ('k \<times> 'v) list" where
  "dict_set [] k v = [(k, v)]"
| "dict_set ((k', v') # d) k v = (if k' = k then (k, v) # d else (k', v') # dict_set d k v)"

type_synonym counter = "(str \<times> nat) list"

definition counter_get :: "counter \<Rightarrow> str \<Rightarrow> nat" where
  "counter_get c k = (case map_of c k of None \<Rightarrow> 0 | Some n \<Rightarrow> n)"

definition counter_incr :: "counter \<Rightarrow> str \<Rightarrow> counter" where
  "counter_incr c k = dict_set c k (counter_get c k + 1)"

record bucket =
  b_count :: nat
  b_name :: str
  b_lat :: int
  b_lng :: int

type_synonym locations = "((int \<times> int) \<times> bucket) list"

text \<open>
  The four lines that file a resolved record:
  \<^verbatim>\<open>key = (lat, lng)\<close>, a new bucket with count 0 when the key is new, then
  \<^verbatim>\<open>locations[key]['count'] += 1\<close>.
\<close>

definition add_location :: "locations \<Rightarrow> int \<times> int \<times> str \<Rightarrow> locations" where
  "add_location locs coords =
     (case coords of (lat, lng, name) \<Rightarrow>
        let key = (lat, lng);
            locs1 = (if map_of locs key = None
                     then dict_set locs key \<lparr>b_count = 0, b_name = name, b_lat = lat, b_lng = lng\<rparr>
                     else locs)
        in (case map_of locs1 key of
              None \<Rightarrow> locs1
            | Some b \<Rightarrow> dict_set locs1 key (b\<lparr>b_count := b_count b + 1\<rparr>)))"

definition bucket_count :: "locations \<Rightarrow> int \<times> int \<Rightarrow> nat" where
  "bucket_count locs key = (case map_of locs key of None \<Rightarrow> 0 | Some b \<Rightarrow> b_count b)"

text \<open>
  A row of \<^verbatim>\<open>csv.DictReader\<close> maps a column name to its text, or to \<^verbatim>\<open>None\<close> when the
  row is shorter than the header; \<^verbatim>\<open>row.get(name, '')\<close> gives the empty string for a
  column that the file does not have.
\<close>

type_synonym row = "str \<rightharpoonup> str option"

definition row_get :: "row \<Rightarrow> str \<Rightarrow> str option" where
  "row_get r name = (case r name of None \<Rightarrow> Some [] | Some v \<Rightarrow> v)"

subsection \<open>\<^verbatim>\<open>generate_jet_placement_heatmap.py\<close>\<close>

record jet_state =
  jet_total :: nat
  jet_mapped :: nat
  jet_prefectures :: counter
  jet_locations :: locations

definition jet_init :: jet_state where
  "jet_init = \<lparr>jet_total = 0, jet_mapped = 0, jet_prefectures = [], jet_locations = []\<rparr>"

definition jet_step :: "ucd \<Rightarrow> jet_state \<Rightarrow> row \<Rightarrow> jet_state" where
  "jet_step U s r =
     (let s1 = s\<lparr>jet_total := jet_total s + 1\<rparr>;
          pref_raw = row_get r (asc ''JET Prefecture'');
          pref = normalize_prefecture U pref_raw
      in case pref of
           None \<Rightarrow> s1
         | Some p \<Rightarrow>
             if p = [] then s1
             else (case map_of PREFECTURE_COORDS p of
                     None \<Rightarrow> s1
                   | Some coords \<Rightarrow>
                       s1\<lparr>jet_mapped := jet_mapped s1 + 1,
                          jet_prefectures := counter_incr (jet_prefectures s1) p,
                          jet_locations := add_location (jet_locations s1) coords\<rparr>))"

definition jet_loop :: "ucd \<Rightarrow> row list \<Rightarrow> jet_state" where
  "jet_loop U rows = foldl (jet_step U) jet_init rows"

subsection \<open>\<^verbatim>\<open>generate_residence_heatmap.py\<close>\<close>

record res_state =
  res_total :: nat
  res_parsed :: nat
  res_geocoded :: nat
  res_states :: counter
  res_locations :: locations

definition res_init :: res_state where
  "res_init = \<lparr>res_total = 0, res_parsed = 0, res_geocoded = 0, res_states = [], res_locations = []\<rparr>"

definition res_step :: "ucd \<Rightarrow> res_state \<Rightarrow> row \<Rightarrow> res_state" where
  "res_step U s r =
     (let s1 = s\<lparr>res_total := res_total s + 1\<rparr>;
          address = row_get r (asc ''Address'')
      in case parse_address U address of (city, state, zip_code) \<Rightarrow>
           (case state of
              None \<Rightarrow> s1
            | Some st \<Rightarrow>
                if st = [] then s1
                else
                  let s2 = s1\<lparr>res_parsed := res_parsed s1 + 1,
                              res_states := counter_incr (res_states s1) st\<rparr>
                  in (case get_coords zip_code state of
                        None \<Rightarrow> s2
                      | Some coords \<Rightarrow>
                          s2\<lparr>res_geocoded := res_geocoded s2 + 1,
                             res_locations := add_location (res_locations s2) coords\<rparr>)))"

definition res_loop :: "ucd \<Rightarrow> row list \<Rightarrow> res_state" where
  "res_loop U rows = foldl (res_step U) res_init rows"

section \<open>Summary and ranking\<close>

text \<open>
  \<^verbatim>\<open>Counter.most_common(n)\<close> is \<^verbatim>\<open>heapq.nlargest(n, items, key=count)\<close>, which the
  library documents as \<^verbatim>\<open>sorted(items, key=count, reverse=True)[:n]\<close>; the sort is
  stable, so items of equal count keep the order of the counter.
\<close>

definition most_common :: "nat \<Rightarrow> counter \<Rightarrow> (str \<times> nat) list" where
  "most_common n c = take n (sort_key (\<lambda>e. - int (snd e)) c)"

datatype py_error = ZeroDivisionError | IndexError

text \<open>
  What \<^verbatim>\<open>main\<close> hands to the page template, after the summary it prints. The
  percentage in the printed summary is \<^verbatim>\<open>mapped*100//total\<close>; the template of the
  placement map also reads \<^verbatim>\<open>prefectures.most_common(1)[0][0]\<close>.
\<close>

record jet_summary =
  js_total :: nat
  js_mapped :: nat
  js_percent :: nat
  js_loc_data :: "bucket list"
  js_pref_data :: "(str \<times> nat) list"
  js_num_prefectures :: nat
  js_top_prefecture :: str

definition main_jet :: "ucd \<Rightarrow> row list \<Rightarrow> py_error + jet_summary" where
  "main_jet U rows =
     (let s = jet_loop U rows
      in if jet_total s = 0 then Inl ZeroDivisionError
         else (case most_common 1 (jet_prefectures s) of
                 [] \<Rightarrow> Inl IndexError
               | first # _ \<Rightarrow>
                   Inr \<lparr>js_total = jet_total s, js_mapped = jet_mapped s,
                        js_percent = jet_mapped s * 100 div jet_total s,
                        js_loc_data = map snd (jet_locations s),
                        js_pref_data = most_common 15 (jet_prefectures s),
                        js_num_prefectures = length (jet_prefectures s),
                        js_top_prefecture = fst first\<rparr>))"

record res_summary =
  rs_total :: nat
  rs_parsed :: nat
  rs_percent :: nat
  rs_geocoded :: nat
  rs_loc_data :: "bucket list"
  rs_state_data :: "(str \<times> nat) list"

definition main_residence :: "ucd \<Rightarrow> row list \<Rightarrow> py_error + res_summary" where
  "main_residence U rows =
     (let s = res_loop U rows
      in if res_total s = 0 then Inl ZeroDivisionError
         else Inr \<lparr>rs_total = res_total s, rs_parsed = res_parsed s,
                   rs_percent = res_parsed s * 100 div res_total s,
                   rs_geocoded = res_geocoded s,
                   rs_loc_data = map snd (res_locations s),
                   rs_state_data =
                     map (\<lambda>(s, c). (case map_of STATE_ABBREV s of None \<Rightarrow> s | Some full \<Rightarrow> full, c))
                       (most_common 15 (res_states s))\<rparr>)"

section \<open>What one row contributes\<close>

text \<open>
  The category label and the bucket key that a row adds to the two histograms, read off
  the loop bodies; the theorems on aggregation count rows by them. \<open>pos\<close> is the place
  of an item in a sequence.
\<close>

definition jet_category :: "ucd \<Rightarrow> row \<Rightarrow> str option" where
  "jet_category U r =
     (case normalize_prefecture U (row_get r (asc ''JET Prefecture'')) of
        None \<Rightarrow> None
      | Some p \<Rightarrow> if p = [] \<or> map_of PREFECTURE_COORDS p = None then None else Some p)"

definition jet_bucket :: "ucd \<Rightarrow> row \<Rightarrow> (int \<times> int) option" where
  "jet_bucket U r =
     (case jet_category U r of
        None \<Rightarrow> None
      | Some p \<Rightarrow> map_option (\<lambda>(lat, lng, name). (lat, lng)) (map_of PREFECTURE_COORDS p))"

definition res_category :: "ucd \<Rightarrow> row \<Rightarrow> str option" where
  "res_category U r =
     (case parse_address U (row_get r (asc ''Address'')) of (city, state, zip_code) \<Rightarrow>
        (case state of None \<Rightarrow> None | Some st \<Rightarrow> if st = [] then None else Some st))"

definition res_bucket :: "ucd \<Rightarrow> row \<Rightarrow> (int \<times> int) option" where
  "res_bucket U r =
     (case parse_address U (row_get r (asc ''Address'')) of (city, state, zip_code) \<Rightarrow>
        (case res_category U r of
           None \<Rightarrow> None
         | Some st \<Rightarrow> map_option (\<lambda>(lat, lng, name). (lat, lng)) (get_coords zip_code state)))"

definition pos :: "'a list \<Rightarrow> 'a \<Rightarrow> nat" where
  "pos xs x = length (takeWhile (\<lambda>y. y \<noteq> x) xs)"


section \<open>Evaluating the tables\<close>

lemma asc_eq_iff [simp]: "asc s = asc t \<longleftrightarrow> s = t"
proof -
  have "inj (of_char :: char \<Rightarrow> nat)"
    by (metis inj_on_inverseI char_of_char)
  then show ?thesis
    unfolding asc_def by (simp add: inj_map_eq_map)
qed

lemma map_of_missI: "list_all (\<lambda>e. fst e \<noteq> k) xs \<Longrightarrow> map_of xs k = None"
  by (induction xs) auto

lemma map_of_hitI:
  "i < length xs \<Longrightarrow> xs ! i = (k, v) \<Longrightarrow> list_all (\<lambda>e. fst e \<noteq> k) (take i xs)
    \<Longrightarrow> map_of xs k = Some v"
proof (induction xs arbitrary: i)
  case Nil
  then show ?case by simp
next
  case (Cons x xs)
  then show ?case by (cases i) auto
qed

lemma zip_90012: "map_of ZIP_COORDS (asc ''90012'') = Some (340622, - 1182406, asc ''Chinatown/Civic Center'')"
  by (rule map_of_hitI [where i = 64]) (simp_all add: ZIP_COORDS_def)

section \<open>Aggregation lemmas\<close>

lemma map_of_dict_set: "map_of (dict_set d k v) k' = (if k' = k then Some v else map_of d k')"
  by (induction d k v rule: dict_set.induct) auto

lemma counter_get_incr:
  "counter_get (counter_incr c k) k' = (if k' = k then counter_get c k + 1 else counter_get c k')"
  by (simp add: counter_get_def counter_incr_def map_of_dict_set)

lemma bucket_count_add:
  "bucket_count (add_location locs (lat, lng, name)) key =
     (if key = (lat, lng) then bucket_count locs key + 1 else bucket_count locs key)"
  by (auto simp: bucket_count_def add_location_def Let_def map_of_dict_set split: option.splits)

lemma jet_step_prefectures:
  "counter_get (jet_prefectures (jet_step U s r)) k =
     counter_get (jet_prefectures s) k + (if jet_category U r = Some k then 1 else 0)"
  by (auto simp: jet_step_def jet_category_def Let_def counter_get_incr split: option.splits)

lemma jet_step_locations:
  "bucket_count (jet_locations (jet_step U s r)) key =
     bucket_count (jet_locations s) key + (if jet_bucket U r = Some key then 1 else 0)"
  by (auto simp: jet_step_def jet_bucket_def jet_category_def Let_def bucket_count_add split: option.splits)

lemma res_step_states:
  "counter_get (res_states (res_step U s r)) k =
     counter_get (res_states s) k + (if res_category U r = Some k then 1 else 0)"
  by (auto simp: res_step_def res_category_def Let_def counter_get_incr split: option.splits prod.splits)

lemma res_step_locations:
  "bucket_count (res_locations (res_step U s r)) key =
     bucket_count (res_locations s) key + (if res_bucket U r = Some key then 1 else 0)"
  by (auto simp: res_step_def res_bucket_def res_category_def Let_def bucket_count_add split: option.splits prod.splits)

lemma jet_fold_prefectures:
  "counter_get (jet_prefectures (foldl (jet_step U) s rows)) k =
     counter_get (jet_prefectures s) k + length (filter (\<lambda>r. jet_category U r = Some k) rows)"
  by (induction rows arbitrary: s) (simp_all add: jet_step_prefectures)

lemma jet_fold_locations:
  "bucket_count (jet_locations (foldl (jet_step U) s rows)) key =
     bucket_count (jet_locations s) key + length (filter (\<lambda>r. jet_bucket U r = Some key) rows)"
  by (induction rows arbitrary: s) (simp_all add: jet_step_locations)

lemma res_fold_states:
  "counter_get (res_states (foldl (res_step U) s rows)) k =
     counter_get (res_states s) k + length (filter (\<lambda>r. res_category U r = Some k) rows)"
  by (induction rows arbitrary: s) (simp_all add: res_step_states)

lemma res_fold_locations:
  "bucket_count (res_locations (foldl (res_step U) s rows)) key =
     bucket_count (res_locations s) key + length (filter (\<lambda>r. res_bucket U r = Some key) rows)"
  by (induction rows arbitrary: s) (simp_all add: res_step_locations)

lemma length_filter_mset: "mset xs = mset ys \<Longrightarrow> length (filter P xs) = length (filter P ys)"
  by (metis mset_filter size_mset)

lemma strip_all_space: "list_all isspace p \<Longrightarrow> strip p = []"
proof -
  assume "list_all isspace p"
  then have d: "dropWhile isspace p = []"
    by (simp add: list_all_iff)
  show ?thesis
    unfolding strip_def strip_chars_def d by simp
qed

lemma take_asc: "take n (asc s) = asc (take n s)"
  by (simp add: asc_def take_map)

lemma zip_900: "map_of ZIP_COORDS (asc ''900'') = Some (340522, - 1182437, asc ''Downtown LA'')"
  by (simp add: ZIP_COORDS_def)

lemma zip_90001: "map_of ZIP_COORDS (asc ''90001'') = None"
  by (rule map_of_missI) (simp add: ZIP_COORDS_def)

lemma zip_02101: "map_of ZIP_COORDS (asc ''02101'') = None"
  by (rule map_of_missI) (simp add: ZIP_COORDS_def)

lemma zip_021: "map_of ZIP_COORDS (asc ''021'') = None"
  by (rule map_of_missI) (simp add: ZIP_COORDS_def)

section \<open>Claims\<close>

text \<open>
  C1. For an empty input (no rows) the run is claimed to end with a summary of zeros.
  Both scripts print \<^verbatim>\<open>x*100//total\<close> after the loop, so on no rows each of them
  raises \<^verbatim>\<open>ZeroDivisionError\<close> before any summary is handed on.
\<close>

theorem empty_input_raises:
  "main_jet U [] = Inl ZeroDivisionError \<and> main_residence U [] = Inl ZeroDivisionError"
  by (simp add: main_jet_def main_residence_def jet_loop_def res_loop_def jet_init_def res_init_def)

text \<open>
  C5. The postal lookup returns nothing for \<^verbatim>\<open>None\<close>; for a code that is a key of
  the table it returns that entry; for a code that is no key but whose first three
  characters are one, it returns the entry of the prefix; in every other case it returns
  nothing.
\<close>

theorem get_coords_cases:
  "get_coords None st = None \<and>
   (\<forall>z e. z \<noteq> [] \<and> map_of ZIP_COORDS z = Some e \<longrightarrow> get_coords (Some z) st = Some e) \<and>
   (\<forall>z e. z \<noteq> [] \<and> map_of ZIP_COORDS z = None \<and> map_of ZIP_COORDS (take 3 z) = Some e
      \<longrightarrow> get_coords (Some z) st = Some e) \<and>
   (\<forall>z. map_of ZIP_COORDS z = None \<and> map_of ZIP_COORDS (take 3 z) = None
      \<longrightarrow> get_coords (Some z) st = None)"
  by (simp add: get_coords_def)

theorem get_coords_cases_witness:
  "get_coords None (Some (asc ''CA'')) = None \<and>
   get_coords (Some (asc ''90012'')) (Some (asc ''CA'')) =
     Some (340622, - 1182406, asc ''Chinatown/Civic Center'') \<and>
   get_coords (Some (asc ''90001'')) (Some (asc ''CA'')) = Some (340522, - 1182437, asc ''Downtown LA'') \<and>
   get_coords (Some (asc ''02101'')) (Some (asc ''MA'')) = None"
proof -
  note ca = get_coords_cases [of "Some (asc ''CA'')"]
  note ma = get_coords_cases [of "Some (asc ''MA'')"]
  have ne: "asc ''90012'' \<noteq> []" "asc ''90001'' \<noteq> []"
    by (simp_all add: asc_def)
  have p1: "map_of ZIP_COORDS (take 3 (asc ''90001'')) = Some (340522, - 1182437, asc ''Downtown LA'')"
    by (simp add: take_asc zip_900)
  have p2: "map_of ZIP_COORDS (take 3 (asc ''02101'')) = None"
    by (simp add: take_asc zip_021)
  have r0: "get_coords None (Some (asc ''CA'')) = None"
    using ca by (rule conjunct1)
  have exact: "\<forall>z e. z \<noteq> [] \<and> map_of ZIP_COORDS z = Some e \<longrightarrow>
      get_coords (Some z) (Some (asc ''CA'')) = Some e"
    using ca by (rule conjunct1 [OF conjunct2])
  have coarse: "\<forall>z e. z \<noteq> [] \<and> map_of ZIP_COORDS z = None \<and> map_of ZIP_COORDS (take 3 z) = Some e \<longrightarrow>
      get_coords (Some z) (Some (asc ''CA'')) = Some e"
    using ca by (rule conjunct1 [OF conjunct2 [OF conjunct2]])
  have neither: "\<forall>z. map_of ZIP_COORDS z = None \<and> map_of ZIP_COORDS (take 3 z) = None \<longrightarrow>
      get_coords (Some z) (Some (asc ''MA'')) = None"
    using ma by (rule conjunct2 [OF conjunct2 [OF conjunct2]])
  have r1: "get_coords (Some (asc ''90012'')) (Some (asc ''CA'')) =
      Some (340622, - 1182406, asc ''Chinatown/Civic Center'')"
    using exact [rule_format, of "asc ''90012''"] ne(1) zip_90012 by simp
  have r2: "get_coords (Some (asc ''90001'')) (Some (asc ''CA'')) = Some (340522, - 1182437, asc ''Downtown LA'')"
    using coarse [rule_format, of "asc ''90001''"] ne(2) zip_90001 p1 by simp
  have r3: "get_coords (Some (asc ''02101'')) (Some (asc ''MA'')) = None"
    using neither [rule_format, of "asc ''02101''"] zip_02101 p2 by simp
  show ?thesis
    using r0 r1 r2 r3 by (intro conjI)
qed

text \<open>
  C6. For a raw prefecture that is the empty string, made of whitespace only, or the
  sentinel \<^verbatim>\<open>N/A\<close>, the normaliser returns nothing. It is a function of its argument,
  so nothing else happens.
\<close>

theorem normalize_blank:
  "p = [] \<or> list_all isspace p \<or> p = asc ''N/A'' \<Longrightarrow> normalize_prefecture U (Some p) = None"
  by (auto simp: normalize_prefecture_def strip_all_space)

theorem normalize_blank_witness:
  "normalize_prefecture ascii_ucd (Some []) = None \<and>
   list_all isspace (asc ''   '') \<and>
   normalize_prefecture ascii_ucd (Some (asc ''   '')) = None \<and>
   normalize_prefecture ascii_ucd (Some (asc ''N/A'')) = None"
proof -
  have sp: "list_all isspace (asc ''   '')"
    by (simp add: asc_def isspace_def)
  show ?thesis
    using sp normalize_blank [of "[]" ascii_ucd] normalize_blank [of "asc ''   ''" ascii_ucd]
      normalize_blank [of "asc ''N/A''" ascii_ucd]
    by simp
qed

text \<open>
  C8. Aggregation does not depend on the order of the rows: two row sequences that are
  permutations of each other give the same count in every category and the same count
  in every coordinate bucket, in both scripts.
\<close>

theorem aggregation_order_independent:
  assumes "mset rows = mset rows'"
  shows "(\<forall>k. counter_get (jet_prefectures (jet_loop U rows)) k =
              counter_get (jet_prefectures (jet_loop U rows')) k) \<and>
         (\<forall>key. bucket_count (jet_locations (jet_loop U rows)) key =
                bucket_count (jet_locations (jet_loop U rows')) key) \<and>
         (\<forall>k. counter_get (res_states (res_loop U rows)) k =
              counter_get (res_states (res_loop U rows')) k) \<and>
         (\<forall>key. bucket_count (res_locations (res_loop U rows)) key =
                bucket_count (res_locations (res_loop U rows')) key)"
proof -
  have same: "length (filter P rows) = length (filter P rows')" for P :: "row \<Rightarrow> bool"
    using assms by (rule length_filter_mset)
  show ?thesis
    by (simp add: jet_loop_def res_loop_def jet_fold_prefectures jet_fold_locations
        res_fold_states res_fold_locations same)
qed

theorem aggregation_order_independent_witness:
  "mset [[asc ''JET Prefecture'' \<mapsto> Some (asc ''Tokyo'')], [asc ''Address'' \<mapsto> Some (asc ''Boston MA 02101'')]] =
   mset [[asc ''Address'' \<mapsto> Some (asc ''Boston MA 02101'')], [asc ''JET Prefecture'' \<mapsto> Some (asc ''Tokyo'')]] \<and>
   (\<forall>k. counter_get (jet_prefectures (jet_loop ascii_ucd
            [[asc ''JET Prefecture'' \<mapsto> Some (asc ''Tokyo'')], [asc ''Address'' \<mapsto> Some (asc ''Boston MA 02101'')]])) k =
         counter_get (jet_prefectures (jet_loop ascii_ucd
            [[asc ''Address'' \<mapsto> Some (asc ''Boston MA 02101'')], [asc ''JET Prefecture'' \<mapsto> Some (asc ''Tokyo'')]])) k)"
proof -
  have h: "mset [[asc ''JET Prefecture'' \<mapsto> Some (asc ''Tokyo'')], [asc ''Address'' \<mapsto> Some (asc ''Boston MA 02101'')]] =
      mset [[asc ''Address'' \<mapsto> Some (asc ''Boston MA 02101'')], [asc ''JET Prefecture'' \<mapsto> Some (asc ''Tokyo'')]]"
    by (simp only: mset.simps add_mset_commute)
  show ?thesis
    by (rule conjI [OF h conjunct1 [OF aggregation_order_independent [OF h]]])
qed

text \<open>
  C10. The coordinate lookup does not depend on its state argument: for every zip code
  and every two state values the results are equal.
\<close>

theorem get_coords_state_independent: "get_coords zip_code s1 = get_coords zip_code s2"
  by (simp add: get_coords_def)

end
